theory Spec2Isabelle
  imports Main "HOL-Library.Word"
begin

section \<open>The console operator's sync loop (pkg/console/operator/sync\_v400.go)\<close>

text \<open>
  A shallow embedding of \<open>sync_v400\<close>, its six sync steps, \<open>secretAndOauthMatch\<close> and
  \<open>setStatus\<close>. Go pointers are options (\<open>None\<close> is nil), a Go result tuple is a HOL
  tuple, a nil pointer dereference is the outcome \<open>Panic\<close>, and every call that reaches
  the cluster (or the random source) threads an explicit world that also records the
  order of the calls. Logging (logrus) is left out: it has no effect on any result.
\<close>

subsection \<open>Errors\<close>

text \<open>
  Go's \<open>error\<close> values as the code sees them: the API machinery's status errors, which
  carry a reason that \<open>apierrors.IsNotFound\<close> inspects, and the plain string errors
  that \<open>errors.New\<close> and \<open>fmt.Errorf\<close> build. A nil error is \<open>None\<close>.
\<close>

datatype StatusReason =
    StatusReasonNotFound
  | StatusReasonAlreadyExists
  | StatusReasonConflict
  | StatusReasonTimeout
  | StatusReasonInternalError
  | StatusReasonUnknown

datatype error = StatusError StatusReason string | errorString string

fun Error :: "error \<Rightarrow> string" where
  "Error (StatusError r m) = m"
| "Error (errorString m) = m"

definition IsNotFound :: "error option \<Rightarrow> bool" where
  "IsNotFound err =
     (case err of
        Some (StatusError r m) \<Rightarrow> r = StatusReasonNotFound
      | _ \<Rightarrow> False)"

definition errors_New :: "string \<Rightarrow> error" where
  "errors_New text = errorString text"

text \<open>\<open>fmt.Errorf(prefix + "%v", err)\<close>: the verb prints a nil error as \<open><nil>\<close>.\<close>

definition fmt_Errorf :: "string \<Rightarrow> error option \<Rightarrow> error" where
  "fmt_Errorf prefix err =
     errorString (prefix @ (case err of None \<Rightarrow> ''<nil>'' | Some e \<Rightarrow> Error e))"

subsection \<open>Outcomes\<close>

text \<open>A Go call either returns its results or panics (here: on a nil dereference).\<close>

datatype 'a outcome = Returns 'a | Panic

subsection \<open>Resources\<close>

text \<open>
  Only the fields the code under study reads or writes are modelled. Service, config map
  and deployment are never inspected by it, so their types stay parameters
  (\<open>'svc\<close>, \<open>'cm\<close>, \<open>'dep\<close>).
\<close>

record RouteSpec =
  Host :: string

record Route =
  Route_Spec :: RouteSpec

record Secret =
  secretString :: string

record OAuthClient =
  OAuthClient_Secret :: string
  RedirectURIs :: "string list"

record ConsoleSpec =
  Version :: string

record ConsoleStatus =
  DefaultHostName :: string
  OAuthSecret :: string

record Console =
  Console_Spec :: ConsoleSpec
  Console_Status :: ConsoleStatus

record VersionAvailability =
  VersionAvailability_Version :: string

text \<open>
  Modelled from the spec: \<open>secretsub.GetSecretString\<close> and \<open>oauthsub.GetSecretString\<close>
  are not among the sources. The spec calls what they read the credential's value and
  the registration's secret value; each reads that one field through the pointer it is
  given, so a nil pointer is a nil dereference.
\<close>

definition secretsub_GetSecretString :: "Secret option \<Rightarrow> string outcome" where
  "secretsub_GetSecretString secret =
     (case secret of None \<Rightarrow> Panic | Some sec \<Rightarrow> Returns (secretString sec))"

definition oauthsub_GetSecretString :: "OAuthClient option \<Rightarrow> string outcome" where
  "oauthsub_GetSecretString client =
     (case client of None \<Rightarrow> Panic | Some oa \<Rightarrow> Returns (OAuthClient_Secret oa))"

subsection \<open>The world: the backend and the record of calls\<close>

datatype call =
    RouteGetOrCreate
  | ApplyService
  | ApplyConfigMap
  | SecretsGet
  | Random256Bits
  | ApplySecret
  | OAuthClientsGet
  | ApplyOAuth
  | DeploymentsGet
  | ApplyDeployment

record 'w world =
  calls :: "call list"
  backend :: 'w

text \<open>Every call that leaves the process runs on the backend and is appended to the record.\<close>

definition invoke :: "call \<Rightarrow> ('w \<Rightarrow> 'r \<times> 'w) \<Rightarrow> 'w world \<Rightarrow> 'r \<times> 'w world" where
  "invoke c f s =
     (case f (backend s) of (r, w') \<Rightarrow> (r, \<lparr>calls = calls s @ [c], backend = w'\<rparr>))"

text \<open>
  The \<open>ConsoleOperator\<close> holds one client per resource kind. Each field below is the
  library call the code makes through that client, with the client's behaviour (any
  function of the backend) as its value:
  \<open>routesub.GetOrCreate(co.routeClient, _)\<close>,
  \<open>resourceapply.ApplyService(co.serviceClient, _)\<close>,
  \<open>resourceapply.ApplyConfigMap(co.configMapClient, _)\<close>,
  \<open>co.secretsClient.Secrets(ns).Get(name, _)\<close>,
  \<open>resourceapply.ApplySecret(co.secretsClient, _)\<close>,
  \<open>co.oauthClient.OAuthClients().Get(name, _)\<close>,
  \<open>oauthsub.ApplyOAuth(co.oauthClient, _)\<close>,
  \<open>co.deploymentClient.Deployments(ns).Get(name, _)\<close> and
  \<open>resourceapply.ApplyDeployment(co.deploymentClient, _, generation, force)\<close>.
\<close>

record ('w, 'svc, 'cm, 'dep) ConsoleOperator =
  routeGetOrCreate :: "Route option \<Rightarrow> 'w \<Rightarrow> (Route option \<times> bool \<times> error option) \<times> 'w"
  applyService :: "'svc option \<Rightarrow> 'w \<Rightarrow> ('svc option \<times> bool \<times> error option) \<times> 'w"
  applyConfigMap :: "'cm option \<Rightarrow> 'w \<Rightarrow> ('cm option \<times> bool \<times> error option) \<times> 'w"
  secretsGet :: "string \<Rightarrow> string \<Rightarrow> 'w \<Rightarrow> (Secret option \<times> error option) \<times> 'w"
  applySecret :: "Secret option \<Rightarrow> 'w \<Rightarrow> (Secret option \<times> bool \<times> error option) \<times> 'w"
  oauthClientsGet :: "string \<Rightarrow> 'w \<Rightarrow> (OAuthClient option \<times> error option) \<times> 'w"
  applyOAuth :: "OAuthClient option \<Rightarrow> 'w \<Rightarrow> (OAuthClient option \<times> bool \<times> error option) \<times> 'w"
  deploymentsGet :: "string \<Rightarrow> string \<Rightarrow> 'w \<Rightarrow> ('dep option \<times> error option) \<times> 'w"
  applyDeployment ::
    "'dep option \<Rightarrow> 64 word \<Rightarrow> bool \<Rightarrow> 'w \<Rightarrow> ('dep option \<times> bool \<times> error option) \<times> 'w"

text \<open>
  The package-level helpers the steps call, none of them among the sources: the
  constructors of the default resources, the stub names, the deployment's version
  markers, the registration of the console on the OAuth client (it writes through the
  client pointer: the value here is the client afterwards) and the random string, which
  draws on the world. They are parameters: every theorem holds for any such helpers.
  The constructors are handed the config pointer; they are taken to read it only.
\<close>

record ('w, 'svc, 'cm, 'dep) packages =
  TargetNamespace :: string
  DefaultRoute :: "Console \<Rightarrow> Route option"
  DefaultService :: "Console \<Rightarrow> 'svc option"
  DefaultConfigMap :: "Console \<Rightarrow> Route option \<Rightarrow> 'cm option"
  DefaultSecret :: "Console \<Rightarrow> string \<Rightarrow> Secret option"
  DefaultDeployment :: "Console \<Rightarrow> 'cm option \<Rightarrow> Secret option \<Rightarrow> 'dep option"
  secretStubName :: string
  oauthStubName :: string
  deploymentStubName :: string
  ExpectedDeploymentGeneration :: "'dep option \<Rightarrow> VersionAvailability \<Rightarrow> 64 word"
  ResourceVersionsChanged :: "'dep option \<Rightarrow> 'cm option \<Rightarrow> Secret option \<Rightarrow> bool"
  UpdateResourceVersions :: "'dep option \<Rightarrow> 'cm option \<Rightarrow> Secret option \<Rightarrow> 'dep option"
  RegisterConsoleToOAuthClient ::
    "OAuthClient option \<Rightarrow> Route option \<Rightarrow> string \<Rightarrow> OAuthClient option"
  Random256BitsString :: "'w \<Rightarrow> string \<times> 'w"

subsection \<open>The sync steps\<close>

definition SyncRoute ::
  "('w, 'svc, 'cm, 'dep) ConsoleOperator \<Rightarrow> ('w, 'svc, 'cm, 'dep) packages \<Rightarrow> Console \<Rightarrow>
   'w world \<Rightarrow> (Route option \<times> bool \<times> error option) outcome \<times> 'w world" where
  "SyncRoute co pk consoleConfig s =
     (case invoke RouteGetOrCreate (routeGetOrCreate co (DefaultRoute pk consoleConfig)) s of
        ((rt, rtIsNew, rtErr), s1) \<Rightarrow>
          if rtErr \<noteq> None then (Returns (None, False, rtErr), s1)
          else
            (case rt of
               None \<Rightarrow> (Panic, s1)
             | Some r \<Rightarrow>
                 if length (Host (Route_Spec r)) = 0
                 then (Returns (None, False, Some (errors_New ''Waiting on Route.Spec.Host'')), s1)
                 else (Returns (rt, rtIsNew, rtErr), s1)))"

definition SyncService ::
  "('w, 'svc, 'cm, 'dep) ConsoleOperator \<Rightarrow> ('w, 'svc, 'cm, 'dep) packages \<Rightarrow> Console \<Rightarrow>
   'w world \<Rightarrow> ('svc option \<times> bool \<times> error option) outcome \<times> 'w world" where
  "SyncService co pk consoleConfig s =
     (case invoke ApplyService (applyService co (DefaultService pk consoleConfig)) s of
        ((svc, svcChanged, svcErr), s1) \<Rightarrow>
          if svcErr \<noteq> None then (Returns (None, False, svcErr), s1)
          else (Returns (svc, svcChanged, svcErr), s1))"

definition SyncConfigMap ::
  "('w, 'svc, 'cm, 'dep) ConsoleOperator \<Rightarrow> ('w, 'svc, 'cm, 'dep) packages \<Rightarrow> Console \<Rightarrow>
   Route option \<Rightarrow> 'w world \<Rightarrow> ('cm option \<times> bool \<times> error option) outcome \<times> 'w world" where
  "SyncConfigMap co pk consoleConfig rt s =
     (case invoke ApplyConfigMap (applyConfigMap co (DefaultConfigMap pk consoleConfig rt)) s of
        ((cm, cmChanged, cmErr), s1) \<Rightarrow>
          if cmErr \<noteq> None then (Returns (None, False, cmErr), s1)
          else (Returns (cm, cmChanged, cmErr), s1))"

text \<open>
  \<open>apierrors.IsNotFound(err) || secretsub.GetSecretString(secret) == ""\<close> short-circuits:
  the secret is read only when the error is not a not-found.
\<close>

definition SyncSecret ::
  "('w, 'svc, 'cm, 'dep) ConsoleOperator \<Rightarrow> ('w, 'svc, 'cm, 'dep) packages \<Rightarrow> Console \<Rightarrow>
   'w world \<Rightarrow> (Secret option \<times> bool \<times> error option) outcome \<times> 'w world" where
  "SyncSecret co pk consoleConfig s =
     (case invoke SecretsGet (secretsGet co (TargetNamespace pk) (secretStubName pk)) s of
        ((secret, err), s1) \<Rightarrow>
          (case (if IsNotFound err then Returns True
                 else (case secretsub_GetSecretString secret of
                         Panic \<Rightarrow> Panic
                       | Returns v \<Rightarrow> Returns (v = ''''))) of
             Panic \<Rightarrow> (Panic, s1)
           | Returns missing \<Rightarrow>
               if missing then
                 (case invoke Random256Bits (Random256BitsString pk) s1 of
                    (random, s2) \<Rightarrow>
                      (case invoke ApplySecret
                              (applySecret co (DefaultSecret pk consoleConfig random)) s2 of
                         ((applied, secChanged, secErr), s3) \<Rightarrow>
                           (Returns (None, secChanged,
                              Some (fmt_Errorf
                                ''secret not found, creating new secret, create error = ''
                                secErr)), s3)))
               else if err \<noteq> None then (Returns (None, False, err), s1)
               else (Returns (secret, False, None), s1)))"

text \<open>
  The arguments of \<open>RegisterConsoleToOAuthClient\<close> are evaluated first, so a nil secret
  panics in \<open>GetSecretString\<close> before the client is touched.
\<close>

definition SyncOAuthClient ::
  "('w, 'svc, 'cm, 'dep) ConsoleOperator \<Rightarrow> ('w, 'svc, 'cm, 'dep) packages \<Rightarrow> Console \<Rightarrow>
   Secret option \<Rightarrow> Route option \<Rightarrow>
   'w world \<Rightarrow> (OAuthClient option \<times> bool \<times> error option) outcome \<times> 'w world" where
  "SyncOAuthClient co pk consoleConfig sec rt s =
     (case invoke OAuthClientsGet (oauthClientsGet co (oauthStubName pk)) s of
        ((oauthClient, err), s1) \<Rightarrow>
          if err \<noteq> None
          then (Returns (None, False,
                  Some (errors_New ''oauth client for console does not exist.'')), s1)
          else
            (case secretsub_GetSecretString sec of
               Panic \<Rightarrow> (Panic, s1)
             | Returns secretStr \<Rightarrow>
                 (case invoke ApplyOAuth
                         (applyOAuth co (RegisterConsoleToOAuthClient pk oauthClient rt secretStr))
                         s1 of
                    ((applied, oauthChanged, oauthErr), s2) \<Rightarrow>
                      if oauthErr \<noteq> None then (Returns (None, False, oauthErr), s2)
                      else (Returns (applied, oauthChanged, None), s2))))"

definition SyncDeployment ::
  "('w, 'svc, 'cm, 'dep) ConsoleOperator \<Rightarrow> ('w, 'svc, 'cm, 'dep) packages \<Rightarrow> Console \<Rightarrow>
   'cm option \<Rightarrow> Secret option \<Rightarrow>
   'w world \<Rightarrow> ('dep option \<times> bool \<times> error option) outcome \<times> 'w world" where
  "SyncDeployment co pk consoleConfig cm sec s =
     (let defaultDeployment = DefaultDeployment pk consoleConfig cm sec;
          versionAvailability =
            \<lparr>VersionAvailability_Version = Version (Console_Spec consoleConfig)\<rparr>;
          deploymentGeneration =
            ExpectedDeploymentGeneration pk defaultDeployment versionAvailability
      in
        case invoke DeploymentsGet
               (deploymentsGet co (TargetNamespace pk) (deploymentStubName pk)) s of
          ((existingDeployment, getDepErr), s1) \<Rightarrow>
            if IsNotFound getDepErr then
              (case invoke ApplyDeployment
                      (applyDeployment co defaultDeployment deploymentGeneration True) s1 of
                 ((applied, depCreated, createdErr), s2) \<Rightarrow>
                   (Returns (None, depCreated,
                      Some (fmt_Errorf
                        ''deployment not found, creating new deployment, create error = ''
                        createdErr)), s2))
            else if getDepErr \<noteq> None then (Returns (None, False, getDepErr), s1)
            else if ResourceVersionsChanged pk existingDeployment cm sec then
              (let toUpdate = UpdateResourceVersions pk existingDeployment cm sec in
                 case invoke ApplyDeployment
                        (applyDeployment co toUpdate deploymentGeneration True) s1 of
                   ((updatedDeployment, depChanged, updateErr), s2) \<Rightarrow>
                     if updateErr \<noteq> None then (Returns (None, False, updateErr), s2)
                     else (Returns (updatedDeployment, depChanged, None), s2))
            else (Returns (existingDeployment, False, None), s1))"

subsection \<open>The pass\<close>

text \<open>
  \<open>sync_v400\<close> returns the config pointer it was given, the accumulated flag and the
  error. No statement of it (nor of the steps) assigns through \<open>consoleConfig\<close>, so the
  config is a value here. The status block after the last step only logs: its call of
  \<open>setStatus\<close> is commented out.
\<close>

definition sync_v400 ::
  "('w, 'svc, 'cm, 'dep) ConsoleOperator \<Rightarrow> ('w, 'svc, 'cm, 'dep) packages \<Rightarrow> Console \<Rightarrow>
   'w world \<Rightarrow> (Console \<times> bool \<times> error option) outcome \<times> 'w world" where
  "sync_v400 co pk consoleConfig s =
     (let toUpdate = False in
      (case SyncRoute co pk consoleConfig s of
        (Panic, s1) \<Rightarrow> (Panic, s1)
      | (Returns (rt, rtChanged, rtErr), s1) \<Rightarrow>
      (if rtErr \<noteq> None then (Returns (consoleConfig, toUpdate, rtErr), s1) else
      (let toUpdate = (toUpdate \<or> rtChanged) in
      (case SyncService co pk consoleConfig s1 of
        (Panic, s2) \<Rightarrow> (Panic, s2)
      | (Returns (svc, svcChanged, svcErr), s2) \<Rightarrow>
      (if svcErr \<noteq> None then (Returns (consoleConfig, toUpdate, svcErr), s2) else
      (let toUpdate = (toUpdate \<or> svcChanged) in
      (case SyncConfigMap co pk consoleConfig rt s2 of
        (Panic, s3) \<Rightarrow> (Panic, s3)
      | (Returns (cm, cmChanged, cmErr), s3) \<Rightarrow>
      (if cmErr \<noteq> None then (Returns (consoleConfig, toUpdate, cmErr), s3) else
      (let toUpdate = (toUpdate \<or> cmChanged) in
      (case SyncSecret co pk consoleConfig s3 of
        (Panic, s4) \<Rightarrow> (Panic, s4)
      | (Returns (sec, secChanged, secErr), s4) \<Rightarrow>
      (if secErr \<noteq> None then (Returns (consoleConfig, toUpdate, secErr), s4) else
      (let toUpdate = (toUpdate \<or> secChanged) in
      (case SyncOAuthClient co pk consoleConfig sec rt s4 of
        (Panic, s5) \<Rightarrow> (Panic, s5)
      | (Returns (oa, oauthChanged, oauthErr), s5) \<Rightarrow>
      (if oauthErr \<noteq> None then (Returns (consoleConfig, toUpdate, oauthErr), s5) else
      (let toUpdate = (toUpdate \<or> oauthChanged) in
      (case SyncDeployment co pk consoleConfig cm sec s5 of
        (Panic, s6) \<Rightarrow> (Panic, s6)
      | (Returns (dep, depChanged, depErr), s6) \<Rightarrow>
      (if depErr \<noteq> None then (Returns (consoleConfig, toUpdate, depErr), s6) else
      (let toUpdate = (toUpdate \<or> depChanged) in
      (Returns (consoleConfig, toUpdate, None), s6))))))))))))))))))))"

subsection \<open>The consistency check and the status\<close>

definition secretAndOauthMatch :: "Secret option \<Rightarrow> OAuthClient option \<Rightarrow> bool outcome" where
  "secretAndOauthMatch secret client =
     (case secretsub_GetSecretString secret of
        Panic \<Rightarrow> Panic
      | Returns secretStr \<Rightarrow>
          (case oauthsub_GetSecretString client of
             Panic \<Rightarrow> Panic
           | Returns clientSecretString \<Rightarrow> Returns (secretStr = clientSecretString)))"

text \<open>
  \<open>setStatus\<close> takes the status struct by value: \<open>cs\<close> is its own copy. The body's
  effect on that copy is \<open>setStatus_body\<close> (the copy when the body ends);
  \<open>rt.Spec.Host\<close> dereferences the route pointer first.
\<close>

definition setStatus_body ::
  "ConsoleStatus \<Rightarrow> 'svc option \<Rightarrow> Route option \<Rightarrow> 'cm option \<Rightarrow> 'dep option \<Rightarrow>
   OAuthClient option \<Rightarrow> Secret option \<Rightarrow> ConsoleStatus outcome" where
  "setStatus_body cs svc rt cm dep oa sec =
     (case rt of
        None \<Rightarrow> Panic
      | Some r \<Rightarrow>
          (let cs = (if Host (Route_Spec r) \<noteq> ''''
                     then cs\<lparr>DefaultHostName := Host (Route_Spec r)\<rparr>
                     else cs\<lparr>DefaultHostName := ''''\<rparr>)
           in case secretAndOauthMatch sec oa of
                Panic \<Rightarrow> Panic
              | Returns matches \<Rightarrow>
                  if matches then Returns (cs\<lparr>OAuthSecret := ''valid''\<rparr>)
                  else Returns (cs\<lparr>OAuthSecret := ''mismatch''\<rparr>)))"

text \<open>
  A call \<open>setStatus(status, svc, rt, cm, dep, oa, sec)\<close> seen from the caller: the
  caller's struct is copied into the parameter, the body runs on the copy, and the
  function has no result. The pair is the call's outcome and the caller's struct after it.
\<close>

definition setStatus ::
  "ConsoleStatus \<Rightarrow> 'svc option \<Rightarrow> Route option \<Rightarrow> 'cm option \<Rightarrow> 'dep option \<Rightarrow>
   OAuthClient option \<Rightarrow> Secret option \<Rightarrow> unit outcome \<times> ConsoleStatus" where
  "setStatus status svc rt cm dep oa sec =
     (let cs = status in
      case setStatus_body cs svc rt cm dep oa sec of
        Panic \<Rightarrow> (Panic, status)
      | Returns cs' \<Rightarrow> (Returns (), status))"

subsection \<open>Which step a call belongs to\<close>

text \<open>
  The steps in the order \<open>sync_v400\<close> runs them: route (1), service (2), config map (3),
  secret (4), OAuth client (5), deployment (6).
\<close>

definition step_of :: "call \<Rightarrow> nat" where
  "step_of c =
     (case c of
        RouteGetOrCreate \<Rightarrow> 1
      | ApplyService \<Rightarrow> 2
      | ApplyConfigMap \<Rightarrow> 3
      | SecretsGet \<Rightarrow> 4
      | Random256Bits \<Rightarrow> 4
      | ApplySecret \<Rightarrow> 4
      | OAuthClientsGet \<Rightarrow> 5
      | ApplyOAuth \<Rightarrow> 5
      | DeploymentsGet \<Rightarrow> 6
      | ApplyDeployment \<Rightarrow> 6)"

definition calls_since :: "'w world \<Rightarrow> 'w world \<Rightarrow> call list" where
  "calls_since s s' = drop (length (calls s)) (calls s')"

text \<open>Between \<open>s\<close> and \<open>s'\<close> the record only grew, and only by calls of step \<open>k\<close>.\<close>

definition only_step :: "nat \<Rightarrow> 'w world \<Rightarrow> 'w world \<Rightarrow> bool" where
  "only_step k s s' =
     (take (length (calls s)) (calls s') = calls s \<and>
      list_all (\<lambda>c. step_of c = k) (calls_since s s'))"

text \<open>Between \<open>s\<close> and \<open>s'\<close> the record only grew, and by no call of a step after \<open>k\<close>.\<close>

definition no_step_after :: "nat \<Rightarrow> 'w world \<Rightarrow> 'w world \<Rightarrow> bool" where
  "no_step_after k s s' =
     (take (length (calls s)) (calls s') = calls s \<and>
      list_all (\<lambda>c. step_of c \<le> k) (calls_since s s'))"

text \<open>The world after call \<open>c\<close>, made in world \<open>s\<close>, left the backend in \<open>w\<close>.\<close>

definition after :: "call \<Rightarrow> 'w world \<Rightarrow> 'w \<Rightarrow> 'w world" where
  "after c s w = \<lparr>calls = calls s @ [c], backend = w\<rparr>"

subsection \<open>A canned cluster\<close>

text \<open>
  A fake operator for concrete runs: every resource exists and is in sync, and the
  backend is a counter of the requests it has served. Variants override single calls.
\<close>

definition example_console :: Console where
  "example_console =
     \<lparr>Console_Spec = \<lparr>Version = ''4.0''\<rparr>,
      Console_Status = \<lparr>DefaultHostName = '''', OAuthSecret = ''''\<rparr>\<rparr>"

definition example_route :: Route where
  "example_route = \<lparr>Route_Spec = \<lparr>Host = ''console.example.com''\<rparr>\<rparr>"

definition example_secret :: Secret where
  "example_secret = \<lparr>secretString = ''s3cr3t''\<rparr>"

definition example_packages :: "(nat, string, string, string) packages" where
  "example_packages =
     \<lparr>TargetNamespace = ''openshift-console'',
      DefaultRoute = (\<lambda>c. Some \<lparr>Route_Spec = \<lparr>Host = ''''\<rparr>\<rparr>),
      DefaultService = (\<lambda>c. Some ''console''),
      DefaultConfigMap = (\<lambda>c rt. Some ''console-config''),
      DefaultSecret = (\<lambda>c random. Some \<lparr>secretString = random\<rparr>),
      DefaultDeployment = (\<lambda>c cm sec. Some ''console''),
      secretStubName = ''console-oauth-config'',
      oauthStubName = ''console-oauth-client'',
      deploymentStubName = ''console'',
      ExpectedDeploymentGeneration = (\<lambda>d v. 1),
      ResourceVersionsChanged = (\<lambda>d cm sec. False),
      UpdateResourceVersions = (\<lambda>d cm sec. d),
      RegisterConsoleToOAuthClient =
        (\<lambda>oa rt secretStr. map_option (\<lambda>c. c\<lparr>OAuthClient_Secret := secretStr\<rparr>) oa),
      Random256BitsString = (\<lambda>w. (''r4nd0m'', Suc w))\<rparr>"

definition example_operator :: "(nat, string, string, string) ConsoleOperator" where
  "example_operator =
     \<lparr>routeGetOrCreate = (\<lambda>required w. ((Some example_route, False, None), Suc w)),
      applyService = (\<lambda>required w. ((required, False, None), Suc w)),
      applyConfigMap = (\<lambda>required w. ((required, False, None), Suc w)),
      secretsGet = (\<lambda>ns name w. ((Some example_secret, None), Suc w)),
      applySecret = (\<lambda>required w. ((required, True, None), Suc w)),
      oauthClientsGet =
        (\<lambda>name w. ((Some \<lparr>OAuthClient_Secret = ''s3cr3t'', RedirectURIs = []\<rparr>, None), Suc w)),
      applyOAuth = (\<lambda>required w. ((required, False, None), Suc w)),
      deploymentsGet = (\<lambda>ns name w. ((Some ''console'', None), Suc w)),
      applyDeployment = (\<lambda>required generation force w. ((required, True, None), Suc w))\<rparr>"

definition example_world :: "nat world" where
  "example_world = \<lparr>calls = [], backend = 0\<rparr>"

definition timeout_error :: error where
  "timeout_error = StatusError StatusReasonTimeout ''the server was unable to respond in time''"

definition not_found_error :: error where
  "not_found_error = StatusError StatusReasonNotFound ''not found''"

text \<open>The route was created in this pass and the router has not set its host yet.\<close>

definition route_pending_operator :: "(nat, string, string, string) ConsoleOperator" where
  "route_pending_operator =
     example_operator
       \<lparr>routeGetOrCreate :=
          (\<lambda>required w. ((Some \<lparr>Route_Spec = \<lparr>Host = ''''\<rparr>\<rparr>, True, None), Suc w))\<rparr>"

text \<open>Applying the service times out.\<close>

definition service_timeout_operator :: "(nat, string, string, string) ConsoleOperator" where
  "service_timeout_operator =
     example_operator
       \<lparr>applyService := (\<lambda>required w. ((None, False, Some timeout_error), Suc w))\<rparr>"

text \<open>The secret does not exist yet.\<close>

definition secret_missing_operator :: "(nat, string, string, string) ConsoleOperator" where
  "secret_missing_operator =
     example_operator
       \<lparr>secretsGet := (\<lambda>ns name w. ((None, Some not_found_error), Suc w))\<rparr>"

text \<open>Reading the OAuth client times out: the client may well exist.\<close>

definition oauth_timeout_operator :: "(nat, string, string, string) ConsoleOperator" where
  "oauth_timeout_operator =
     example_operator
       \<lparr>oauthClientsGet := (\<lambda>name w. ((None, Some timeout_error), Suc w))\<rparr>"

text \<open>The deployment does not exist yet.\<close>

definition deployment_missing_operator :: "(nat, string, string, string) ConsoleOperator" where
  "deployment_missing_operator =
     example_operator
       \<lparr>deploymentsGet := (\<lambda>ns name w. ((None, Some not_found_error), Suc w))\<rparr>"

text \<open>The OAuth client is registered anew and the apply reports a change.\<close>

definition oauth_drift_operator :: "(nat, string, string, string) ConsoleOperator" where
  "oauth_drift_operator =
     example_operator
       \<lparr>applyOAuth := (\<lambda>required w. ((required, True, None), Suc w))\<rparr>"

section \<open>Properties\<close>

lemmas example_defs =
  example_console_def example_route_def example_secret_def example_packages_def
  example_operator_def example_world_def timeout_error_def not_found_error_def
  route_pending_operator_def service_timeout_operator_def secret_missing_operator_def
  oauth_timeout_operator_def deployment_missing_operator_def oauth_drift_operator_def

lemmas step_defs =
  SyncRoute_def SyncService_def SyncConfigMap_def SyncSecret_def SyncOAuthClient_def
  SyncDeployment_def invoke_def IsNotFound_def errors_New_def fmt_Errorf_def
  secretsub_GetSecretString_def

subsection \<open>The record of calls\<close>

lemma only_stepI:
  "calls s' = calls s @ cs \<Longrightarrow> list_all (\<lambda>c. step_of c = k) cs \<Longrightarrow> only_step k s s'"
  by (simp add: only_step_def calls_since_def)

lemma no_step_after_first: "only_step k s s' \<Longrightarrow> no_step_after k s s'"
  by (simp add: only_step_def no_step_after_def list_all_iff)

lemma no_step_after_next:
  assumes "no_step_after j s s'" and "only_step k s' s''" and "j \<le> k"
  shows "no_step_after k s s''"
proof -
  from assms(1) obtain cs where cs: "calls s' = calls s @ cs" "list_all (\<lambda>c. step_of c \<le> j) cs"
    unfolding no_step_after_def calls_since_def by (metis append_take_drop_id)
  from assms(2) obtain ds where ds: "calls s'' = calls s' @ ds" "list_all (\<lambda>c. step_of c = k) ds"
    unfolding only_step_def calls_since_def by (metis append_take_drop_id)
  have "list_all (\<lambda>c. step_of c \<le> k) cs"
    using cs(2) assms(3) by (auto simp: list_all_iff)
  moreover have "list_all (\<lambda>c. step_of c \<le> k) ds"
    using ds(2) by (auto simp: list_all_iff)
  ultimately show ?thesis
    using cs(1) ds(1) by (simp add: no_step_after_def calls_since_def)
qed

lemma SyncRoute_calls: "SyncRoute co pk cfg s = (r, s') \<Longrightarrow> only_step 1 s s'"
  by (rule only_stepI [where cs = "[RouteGetOrCreate]"])
    (auto simp: SyncRoute_def invoke_def step_of_def split: prod.splits if_splits option.splits)

lemma SyncService_calls: "SyncService co pk cfg s = (r, s') \<Longrightarrow> only_step 2 s s'"
  by (rule only_stepI [where cs = "[ApplyService]"])
    (auto simp: SyncService_def invoke_def step_of_def split: prod.splits if_splits)

lemma SyncConfigMap_calls: "SyncConfigMap co pk cfg rt s = (r, s') \<Longrightarrow> only_step 3 s s'"
  by (rule only_stepI [where cs = "[ApplyConfigMap]"])
    (auto simp: SyncConfigMap_def invoke_def step_of_def split: prod.splits if_splits)

lemma SyncSecret_calls: "SyncSecret co pk cfg s = (r, s') \<Longrightarrow> only_step 4 s s'"
  by (auto simp: SyncSecret_def invoke_def step_of_def only_step_def calls_since_def
      split: prod.splits if_splits option.splits outcome.splits)

lemma SyncOAuthClient_calls:
  "SyncOAuthClient co pk cfg sec rt s = (r, s') \<Longrightarrow> only_step 5 s s'"
  by (auto simp: SyncOAuthClient_def invoke_def step_of_def only_step_def calls_since_def
      split: prod.splits if_splits option.splits outcome.splits)

lemma SyncDeployment_calls:
  "SyncDeployment co pk cfg cm sec s = (r, s') \<Longrightarrow> only_step 6 s s'"
  by (auto simp: SyncDeployment_def invoke_def step_of_def only_step_def calls_since_def Let_def
      split: prod.splits if_splits option.splits outcome.splits)

subsection \<open>The pass, step by step\<close>

lemma sync_v400_route_err:
  "SyncRoute co pk cfg s = (Returns (rt, rtChanged, Some e), s_rt) \<Longrightarrow>
   sync_v400 co pk cfg s = (Returns (cfg, False, Some e), s_rt)"
  by (simp add: sync_v400_def)

lemma sync_v400_service_err:
  "SyncRoute co pk cfg s = (Returns (rt, rtChanged, None), s_rt) \<Longrightarrow>
   SyncService co pk cfg s_rt = (Returns (svc, svcChanged, Some e), s_svc) \<Longrightarrow>
   sync_v400 co pk cfg s = (Returns (cfg, rtChanged, Some e), s_svc)"
  by (simp add: sync_v400_def)

lemma sync_v400_configmap_err:
  "SyncRoute co pk cfg s = (Returns (rt, rtChanged, None), s_rt) \<Longrightarrow>
   SyncService co pk cfg s_rt = (Returns (svc, svcChanged, None), s_svc) \<Longrightarrow>
   SyncConfigMap co pk cfg rt s_svc = (Returns (cm, cmChanged, Some e), s_cm) \<Longrightarrow>
   sync_v400 co pk cfg s = (Returns (cfg, rtChanged \<or> svcChanged, Some e), s_cm)"
  by (simp add: sync_v400_def)

lemma sync_v400_secret_err:
  "SyncRoute co pk cfg s = (Returns (rt, rtChanged, None), s_rt) \<Longrightarrow>
   SyncService co pk cfg s_rt = (Returns (svc, svcChanged, None), s_svc) \<Longrightarrow>
   SyncConfigMap co pk cfg rt s_svc = (Returns (cm, cmChanged, None), s_cm) \<Longrightarrow>
   SyncSecret co pk cfg s_cm = (Returns (sec, secChanged, Some e), s_sec) \<Longrightarrow>
   sync_v400 co pk cfg s = (Returns (cfg, rtChanged \<or> svcChanged \<or> cmChanged, Some e), s_sec)"
  by (simp add: sync_v400_def)

lemma sync_v400_oauth_err:
  "SyncRoute co pk cfg s = (Returns (rt, rtChanged, None), s_rt) \<Longrightarrow>
   SyncService co pk cfg s_rt = (Returns (svc, svcChanged, None), s_svc) \<Longrightarrow>
   SyncConfigMap co pk cfg rt s_svc = (Returns (cm, cmChanged, None), s_cm) \<Longrightarrow>
   SyncSecret co pk cfg s_cm = (Returns (sec, secChanged, None), s_sec) \<Longrightarrow>
   SyncOAuthClient co pk cfg sec rt s_sec = (Returns (oa, oauthChanged, Some e), s_oa) \<Longrightarrow>
   sync_v400 co pk cfg s =
     (Returns (cfg, rtChanged \<or> svcChanged \<or> cmChanged \<or> secChanged, Some e), s_oa)"
  by (simp add: sync_v400_def)

lemma sync_v400_deployment_err:
  "SyncRoute co pk cfg s = (Returns (rt, rtChanged, None), s_rt) \<Longrightarrow>
   SyncService co pk cfg s_rt = (Returns (svc, svcChanged, None), s_svc) \<Longrightarrow>
   SyncConfigMap co pk cfg rt s_svc = (Returns (cm, cmChanged, None), s_cm) \<Longrightarrow>
   SyncSecret co pk cfg s_cm = (Returns (sec, secChanged, None), s_sec) \<Longrightarrow>
   SyncOAuthClient co pk cfg sec rt s_sec = (Returns (oa, oauthChanged, None), s_oa) \<Longrightarrow>
   SyncDeployment co pk cfg cm sec s_oa = (Returns (dep, depChanged, Some e), s_dep) \<Longrightarrow>
   sync_v400 co pk cfg s =
     (Returns (cfg, rtChanged \<or> svcChanged \<or> cmChanged \<or> secChanged \<or> oauthChanged, Some e),
      s_dep)"
  by (simp add: sync_v400_def)

subsection \<open>The claims\<close>

text \<open>
  C1. Whichever step is the first to return a non-nil error, \<open>sync_v400\<close> returns at
  once with the config it was given and that error, in the world that step left: no call
  of a later step is made. One conjunct per step, in the order route, service, config
  map, secret, OAuth client, deployment. The "just created" signal of the secret and
  deployment steps is such an error: the last two conjuncts say that a step that finds
  its resource missing (for the secret: missing or empty) always returns one.
\<close>

theorem sync_v400_stops_at_failing_step:
  "(SyncRoute co pk cfg s = (Returns (rt, rtChanged, Some e), s_rt) \<longrightarrow>
      sync_v400 co pk cfg s = (Returns (cfg, False, Some e), s_rt) \<and> no_step_after 1 s s_rt)
   \<and>
   (SyncRoute co pk cfg s = (Returns (rt, rtChanged, None), s_rt) \<longrightarrow>
    SyncService co pk cfg s_rt = (Returns (svc, svcChanged, Some e), s_svc) \<longrightarrow>
      sync_v400 co pk cfg s = (Returns (cfg, rtChanged, Some e), s_svc) \<and>
      no_step_after 2 s s_svc)
   \<and>
   (SyncRoute co pk cfg s = (Returns (rt, rtChanged, None), s_rt) \<longrightarrow>
    SyncService co pk cfg s_rt = (Returns (svc, svcChanged, None), s_svc) \<longrightarrow>
    SyncConfigMap co pk cfg rt s_svc = (Returns (cm, cmChanged, Some e), s_cm) \<longrightarrow>
      sync_v400 co pk cfg s = (Returns (cfg, rtChanged \<or> svcChanged, Some e), s_cm) \<and>
      no_step_after 3 s s_cm)
   \<and>
   (SyncRoute co pk cfg s = (Returns (rt, rtChanged, None), s_rt) \<longrightarrow>
    SyncService co pk cfg s_rt = (Returns (svc, svcChanged, None), s_svc) \<longrightarrow>
    SyncConfigMap co pk cfg rt s_svc = (Returns (cm, cmChanged, None), s_cm) \<longrightarrow>
    SyncSecret co pk cfg s_cm = (Returns (sec, secChanged, Some e), s_sec) \<longrightarrow>
      sync_v400 co pk cfg s =
        (Returns (cfg, rtChanged \<or> svcChanged \<or> cmChanged, Some e), s_sec) \<and>
      no_step_after 4 s s_sec)
   \<and>
   (SyncRoute co pk cfg s = (Returns (rt, rtChanged, None), s_rt) \<longrightarrow>
    SyncService co pk cfg s_rt = (Returns (svc, svcChanged, None), s_svc) \<longrightarrow>
    SyncConfigMap co pk cfg rt s_svc = (Returns (cm, cmChanged, None), s_cm) \<longrightarrow>
    SyncSecret co pk cfg s_cm = (Returns (sec, secChanged, None), s_sec) \<longrightarrow>
    SyncOAuthClient co pk cfg sec rt s_sec = (Returns (oa, oauthChanged, Some e), s_oa) \<longrightarrow>
      sync_v400 co pk cfg s =
        (Returns (cfg, rtChanged \<or> svcChanged \<or> cmChanged \<or> secChanged, Some e), s_oa) \<and>
      no_step_after 5 s s_oa)
   \<and>
   (SyncRoute co pk cfg s = (Returns (rt, rtChanged, None), s_rt) \<longrightarrow>
    SyncService co pk cfg s_rt = (Returns (svc, svcChanged, None), s_svc) \<longrightarrow>
    SyncConfigMap co pk cfg rt s_svc = (Returns (cm, cmChanged, None), s_cm) \<longrightarrow>
    SyncSecret co pk cfg s_cm = (Returns (sec, secChanged, None), s_sec) \<longrightarrow>
    SyncOAuthClient co pk cfg sec rt s_sec = (Returns (oa, oauthChanged, None), s_oa) \<longrightarrow>
    SyncDeployment co pk cfg cm sec s_oa = (Returns (dep, depChanged, Some e), s_dep) \<longrightarrow>
      sync_v400 co pk cfg s =
        (Returns
          (cfg, rtChanged \<or> svcChanged \<or> cmChanged \<or> secChanged \<or> oauthChanged, Some e),
         s_dep) \<and>
      no_step_after 6 s s_dep)
   \<and>
   (secretsGet co (TargetNamespace pk) (secretStubName pk) (backend s) = ((found, err), w) \<longrightarrow>
    IsNotFound err \<or> (\<exists>x. found = Some x \<and> secretString x = '''') \<longrightarrow>
      (\<exists>changed e' s'. SyncSecret co pk cfg s = (Returns (None, changed, Some e'), s')))
   \<and>
   (deploymentsGet co (TargetNamespace pk) (deploymentStubName pk) (backend s) =
      ((existing, err), w) \<longrightarrow>
    IsNotFound err \<longrightarrow>
      (\<exists>changed e' s'.
         SyncDeployment co pk cfg cm sec s = (Returns (None, changed, Some e'), s')))"
proof (intro conjI impI)
  assume rt: "SyncRoute co pk cfg s = (Returns (rt, rtChanged, Some e), s_rt)"
  show "sync_v400 co pk cfg s = (Returns (cfg, False, Some e), s_rt)"
    using rt by (rule sync_v400_route_err)
  show "no_step_after 1 s s_rt"
    using rt by (intro no_step_after_first SyncRoute_calls)
next
  assume rt: "SyncRoute co pk cfg s = (Returns (rt, rtChanged, None), s_rt)"
  note a1 = no_step_after_first [OF SyncRoute_calls [OF rt]]
  {
    assume svc: "SyncService co pk cfg s_rt = (Returns (svc, svcChanged, Some e), s_svc)"
    show "sync_v400 co pk cfg s = (Returns (cfg, rtChanged, Some e), s_svc)"
      using rt svc by (rule sync_v400_service_err)
    show "no_step_after 2 s s_svc"
      using no_step_after_next [OF a1 SyncService_calls [OF svc]] by simp
  }
  assume svc: "SyncService co pk cfg s_rt = (Returns (svc, svcChanged, None), s_svc)"
  have a2: "no_step_after 2 s s_svc"
    using no_step_after_next [OF a1 SyncService_calls [OF svc]] by simp
  {
    assume cm: "SyncConfigMap co pk cfg rt s_svc = (Returns (cm, cmChanged, Some e), s_cm)"
    show "sync_v400 co pk cfg s = (Returns (cfg, rtChanged \<or> svcChanged, Some e), s_cm)"
      using rt svc cm by (rule sync_v400_configmap_err)
    show "no_step_after 3 s s_cm"
      using no_step_after_next [OF a2 SyncConfigMap_calls [OF cm]] by simp
  }
  assume cm: "SyncConfigMap co pk cfg rt s_svc = (Returns (cm, cmChanged, None), s_cm)"
  have a3: "no_step_after 3 s s_cm"
    using no_step_after_next [OF a2 SyncConfigMap_calls [OF cm]] by simp
  {
    assume sec: "SyncSecret co pk cfg s_cm = (Returns (sec, secChanged, Some e), s_sec)"
    show "sync_v400 co pk cfg s =
        (Returns (cfg, rtChanged \<or> svcChanged \<or> cmChanged, Some e), s_sec)"
      using rt svc cm sec by (rule sync_v400_secret_err)
    show "no_step_after 4 s s_sec"
      using no_step_after_next [OF a3 SyncSecret_calls [OF sec]] by simp
  }
  assume sec: "SyncSecret co pk cfg s_cm = (Returns (sec, secChanged, None), s_sec)"
  have a4: "no_step_after 4 s s_sec"
    using no_step_after_next [OF a3 SyncSecret_calls [OF sec]] by simp
  {
    assume oa: "SyncOAuthClient co pk cfg sec rt s_sec = (Returns (oa, oauthChanged, Some e), s_oa)"
    show "sync_v400 co pk cfg s =
        (Returns (cfg, rtChanged \<or> svcChanged \<or> cmChanged \<or> secChanged, Some e), s_oa)"
      using rt svc cm sec oa by (rule sync_v400_oauth_err)
    show "no_step_after 5 s s_oa"
      using no_step_after_next [OF a4 SyncOAuthClient_calls [OF oa]] by simp
  }
  assume oa: "SyncOAuthClient co pk cfg sec rt s_sec = (Returns (oa, oauthChanged, None), s_oa)"
  have a5: "no_step_after 5 s s_oa"
    using no_step_after_next [OF a4 SyncOAuthClient_calls [OF oa]] by simp
  assume dep: "SyncDeployment co pk cfg cm sec s_oa = (Returns (dep, depChanged, Some e), s_dep)"
  show "sync_v400 co pk cfg s =
        (Returns
          (cfg, rtChanged \<or> svcChanged \<or> cmChanged \<or> secChanged \<or> oauthChanged, Some e),
         s_dep)"
    using rt svc cm sec oa dep by (rule sync_v400_deployment_err)
  show "no_step_after 6 s s_dep"
    using no_step_after_next [OF a5 SyncDeployment_calls [OF dep]] by simp
next
  assume "secretsGet co (TargetNamespace pk) (secretStubName pk) (backend s) = ((found, err), w)"
    and "IsNotFound err \<or> (\<exists>x. found = Some x \<and> secretString x = '''')"
  then show "\<exists>changed e' s'. SyncSecret co pk cfg s = (Returns (None, changed, Some e'), s')"
    by (auto simp: SyncSecret_def invoke_def secretsub_GetSecretString_def split: prod.splits)
next
  assume "deploymentsGet co (TargetNamespace pk) (deploymentStubName pk) (backend s) =
      ((existing, err), w)"
    and "IsNotFound err"
  then show "\<exists>changed e' s'.
      SyncDeployment co pk cfg cm sec s = (Returns (None, changed, Some e'), s')"
    by (auto simp: SyncDeployment_def invoke_def Let_def split: prod.splits)
qed

theorem sync_v400_stops_at_failing_step_witness:
  "sync_v400 route_pending_operator example_packages example_console example_world =
     (Returns (example_console, False, Some (errorString ''Waiting on Route.Spec.Host'')),
      \<lparr>calls = [RouteGetOrCreate], backend = 1\<rparr>)
   \<and> no_step_after 1 example_world \<lparr>calls = [RouteGetOrCreate], backend = 1\<rparr>
   \<and> sync_v400 secret_missing_operator example_packages example_console example_world =
     (Returns (example_console, False,
        Some (errorString ''secret not found, creating new secret, create error = <nil>'')),
      \<lparr>calls = [RouteGetOrCreate, ApplyService, ApplyConfigMap, SecretsGet, Random256Bits,
                ApplySecret],
       backend = 6\<rparr>)
   \<and> no_step_after 4 example_world
        \<lparr>calls = [RouteGetOrCreate, ApplyService, ApplyConfigMap, SecretsGet, Random256Bits,
                  ApplySecret],
         backend = 6\<rparr>
   \<and> sync_v400 deployment_missing_operator example_packages example_console example_world =
     (Returns (example_console, False,
        Some (errorString
          ''deployment not found, creating new deployment, create error = <nil>'')),
      \<lparr>calls = [RouteGetOrCreate, ApplyService, ApplyConfigMap, SecretsGet, OAuthClientsGet,
                ApplyOAuth, DeploymentsGet, ApplyDeployment],
       backend = 8\<rparr>)"
proof -
  have rt: "SyncRoute route_pending_operator example_packages example_console example_world =
      (Returns (None, False, Some (errorString ''Waiting on Route.Spec.Host'')),
       \<lparr>calls = [RouteGetOrCreate], backend = 1\<rparr>)"
    by (simp add: step_defs example_defs)
  note first = sync_v400_stops_at_failing_step [THEN conjunct1, rule_format, OF rt]
  have rt': "SyncRoute secret_missing_operator example_packages example_console example_world =
      (Returns (Some example_route, False, None), \<lparr>calls = [RouteGetOrCreate], backend = 1\<rparr>)"
    by (simp add: step_defs example_defs)
  have svc: "SyncService secret_missing_operator example_packages example_console
        \<lparr>calls = [RouteGetOrCreate], backend = 1\<rparr> =
      (Returns (Some ''console'', False, None),
       \<lparr>calls = [RouteGetOrCreate, ApplyService], backend = 2\<rparr>)"
    by (simp add: step_defs example_defs)
  have cm: "SyncConfigMap secret_missing_operator example_packages example_console
        (Some example_route) \<lparr>calls = [RouteGetOrCreate, ApplyService], backend = 2\<rparr> =
      (Returns (Some ''console-config'', False, None),
       \<lparr>calls = [RouteGetOrCreate, ApplyService, ApplyConfigMap], backend = 3\<rparr>)"
    by (simp add: step_defs example_defs)
  have sec: "SyncSecret secret_missing_operator example_packages example_console
        \<lparr>calls = [RouteGetOrCreate, ApplyService, ApplyConfigMap], backend = 3\<rparr> =
      (Returns (None, True,
         Some (errorString ''secret not found, creating new secret, create error = <nil>'')),
       \<lparr>calls = [RouteGetOrCreate, ApplyService, ApplyConfigMap, SecretsGet, Random256Bits,
                 ApplySecret],
        backend = 6\<rparr>)"
    by (simp add: step_defs example_defs)
  note fourth =
    sync_v400_stops_at_failing_step
      [THEN conjunct2, THEN conjunct2, THEN conjunct2, THEN conjunct1, rule_format,
       OF rt' svc cm sec]
  have rt'': "SyncRoute deployment_missing_operator example_packages example_console
        example_world =
      (Returns (Some example_route, False, None), \<lparr>calls = [RouteGetOrCreate], backend = 1\<rparr>)"
    by (simp add: step_defs example_defs)
  have svc'': "SyncService deployment_missing_operator example_packages example_console
        \<lparr>calls = [RouteGetOrCreate], backend = 1\<rparr> =
      (Returns (Some ''console'', False, None),
       \<lparr>calls = [RouteGetOrCreate, ApplyService], backend = 2\<rparr>)"
    by (simp add: step_defs example_defs)
  have cm'': "SyncConfigMap deployment_missing_operator example_packages example_console
        (Some example_route) \<lparr>calls = [RouteGetOrCreate, ApplyService], backend = 2\<rparr> =
      (Returns (Some ''console-config'', False, None),
       \<lparr>calls = [RouteGetOrCreate, ApplyService, ApplyConfigMap], backend = 3\<rparr>)"
    by (simp add: step_defs example_defs)
  have sec'': "SyncSecret deployment_missing_operator example_packages example_console
        \<lparr>calls = [RouteGetOrCreate, ApplyService, ApplyConfigMap], backend = 3\<rparr> =
      (Returns (Some example_secret, False, None),
       \<lparr>calls = [RouteGetOrCreate, ApplyService, ApplyConfigMap, SecretsGet], backend = 4\<rparr>)"
    by (simp add: step_defs example_defs)
  have oa'': "SyncOAuthClient deployment_missing_operator example_packages example_console
        (Some example_secret) (Some example_route)
        \<lparr>calls = [RouteGetOrCreate, ApplyService, ApplyConfigMap, SecretsGet], backend = 4\<rparr> =
      (Returns (Some \<lparr>OAuthClient_Secret = ''s3cr3t'', RedirectURIs = []\<rparr>, False, None),
       \<lparr>calls = [RouteGetOrCreate, ApplyService, ApplyConfigMap, SecretsGet, OAuthClientsGet,
                 ApplyOAuth],
        backend = 6\<rparr>)"
    by (simp add: step_defs example_defs)
  have dep'': "SyncDeployment deployment_missing_operator example_packages example_console
        (Some ''console-config'') (Some example_secret)
        \<lparr>calls = [RouteGetOrCreate, ApplyService, ApplyConfigMap, SecretsGet, OAuthClientsGet,
                  ApplyOAuth],
         backend = 6\<rparr> =
      (Returns (None, True,
         Some (errorString
           ''deployment not found, creating new deployment, create error = <nil>'')),
       \<lparr>calls = [RouteGetOrCreate, ApplyService, ApplyConfigMap, SecretsGet, OAuthClientsGet,
                 ApplyOAuth, DeploymentsGet, ApplyDeployment],
        backend = 8\<rparr>)"
    by (simp add: step_defs example_defs)
  note sixth =
    sync_v400_stops_at_failing_step
      [THEN conjunct2, THEN conjunct2, THEN conjunct2, THEN conjunct2, THEN conjunct2,
       THEN conjunct1, rule_format, OF rt'' svc'' cm'' sec'' oa'' dep'']
  show ?thesis
    using first fourth sixth by simp
qed

text \<open>
  C2. The claim is that a pass stopped by a "created for the first time" signal returns
  the changed flag true. It does not: \<open>sync_v400\<close> tests the step's error before it
  accumulates the step's flag. Here the secret (then the deployment) is missing, the
  step creates it and reports \<open>changed = true\<close> with its error, and the pass returns
  \<open>changed = false\<close>.
\<close>

theorem sync_v400_drops_created_flag:
  "SyncSecret secret_missing_operator example_packages example_console
     \<lparr>calls = [RouteGetOrCreate, ApplyService, ApplyConfigMap], backend = 3\<rparr> =
     (Returns (None, True,
        Some (errorString ''secret not found, creating new secret, create error = <nil>'')),
      \<lparr>calls = [RouteGetOrCreate, ApplyService, ApplyConfigMap, SecretsGet, Random256Bits,
                ApplySecret],
       backend = 6\<rparr>)
   \<and> sync_v400 secret_missing_operator example_packages example_console example_world =
     (Returns (example_console, False,
        Some (errorString ''secret not found, creating new secret, create error = <nil>'')),
      \<lparr>calls = [RouteGetOrCreate, ApplyService, ApplyConfigMap, SecretsGet, Random256Bits,
                ApplySecret],
       backend = 6\<rparr>)
   \<and> SyncDeployment deployment_missing_operator example_packages example_console
       (Some ''console-config'') (Some example_secret)
       \<lparr>calls = [RouteGetOrCreate, ApplyService, ApplyConfigMap, SecretsGet, OAuthClientsGet,
                 ApplyOAuth],
        backend = 6\<rparr> =
     (Returns (None, True,
        Some (errorString
          ''deployment not found, creating new deployment, create error = <nil>'')),
      \<lparr>calls = [RouteGetOrCreate, ApplyService, ApplyConfigMap, SecretsGet, OAuthClientsGet,
                ApplyOAuth, DeploymentsGet, ApplyDeployment],
       backend = 8\<rparr>)
   \<and> sync_v400 deployment_missing_operator example_packages example_console example_world =
     (Returns (example_console, False,
        Some (errorString
          ''deployment not found, creating new deployment, create error = <nil>'')),
      \<lparr>calls = [RouteGetOrCreate, ApplyService, ApplyConfigMap, SecretsGet, OAuthClientsGet,
                ApplyOAuth, DeploymentsGet, ApplyDeployment],
       backend = 8\<rparr>)"
  by (simp add: sync_v400_def step_defs example_defs)

text \<open>
  C3. When the secret exists and its string is not empty, \<open>SyncSecret\<close> returns it with
  \<open>changed = false\<close> and no error, whatever the config and the helpers are; its only
  call is the get, so nothing is created or updated and the backend is as the get left it.
\<close>

theorem SyncSecret_keeps_existing_secret:
  "secretsGet co (TargetNamespace pk) (secretStubName pk) (backend s) = ((Some secret, None), w) \<Longrightarrow>
   secretString secret \<noteq> '''' \<Longrightarrow>
   SyncSecret co pk cfg s = (Returns (Some secret, False, None), after SecretsGet s w) \<and>
   calls_since s (snd (SyncSecret co pk cfg s)) = [SecretsGet]"
  by (simp add: SyncSecret_def invoke_def IsNotFound_def secretsub_GetSecretString_def
      after_def calls_since_def)

theorem SyncSecret_keeps_existing_secret_witness:
  "secretsGet example_operator (TargetNamespace example_packages)
     (secretStubName example_packages) (backend example_world) =
     ((Some example_secret, None), 1)
   \<and> secretString example_secret \<noteq> ''''
   \<and> SyncSecret example_operator example_packages example_console example_world =
     (Returns (Some example_secret, False, None), \<lparr>calls = [SecretsGet], backend = 1\<rparr>)
   \<and> calls_since example_world
       (snd (SyncSecret example_operator example_packages example_console example_world)) =
     [SecretsGet]"
proof -
  have get: "secretsGet example_operator (TargetNamespace example_packages)
      (secretStubName example_packages) (backend example_world) =
      ((Some example_secret, None), 1)"
    by (simp add: example_defs)
  have nonempty: "secretString example_secret \<noteq> ''''"
    by (simp add: example_defs)
  show ?thesis
    using get nonempty
      SyncSecret_keeps_existing_secret [OF get nonempty, where cfg = example_console]
    by (simp add: after_def calls_since_def example_world_def)
qed

text \<open>
  C4, as stated, fails. The claim is that a get or apply failure whose reason is not
  "not found" reaches the caller of \<open>sync_v400\<close> as that very error, the OAuth client's
  get in particular. Here the get times out, and \<open>SyncOAuthClient\<close> (and with it the
  pass) returns the fixed error "oauth client for console does not exist." instead.
\<close>

theorem SyncOAuthClient_replaces_get_error:
  "\<not> IsNotFound (Some timeout_error)
   \<and> oauthClientsGet oauth_timeout_operator (oauthStubName example_packages) 4 =
       ((None, Some timeout_error), 5)
   \<and> SyncOAuthClient oauth_timeout_operator example_packages example_console
       (Some example_secret) (Some example_route)
       \<lparr>calls = [RouteGetOrCreate, ApplyService, ApplyConfigMap, SecretsGet], backend = 4\<rparr> =
     (Returns (None, False, Some (errorString ''oauth client for console does not exist.'')),
      \<lparr>calls = [RouteGetOrCreate, ApplyService, ApplyConfigMap, SecretsGet, OAuthClientsGet],
       backend = 5\<rparr>)
   \<and> sync_v400 oauth_timeout_operator example_packages example_console example_world =
     (Returns (example_console, False,
        Some (errorString ''oauth client for console does not exist.'')),
      \<lparr>calls = [RouteGetOrCreate, ApplyService, ApplyConfigMap, SecretsGet, OAuthClientsGet],
       backend = 5\<rparr>)
   \<and> errorString ''oauth client for console does not exist.'' \<noteq> timeout_error"
  by (simp add: sync_v400_def step_defs example_defs)

text \<open>
  C4, amended. A failure of the route's get-or-create, of the service, config map or
  OAuth apply, of the deployment's update apply, and a failure of the deployment's get
  that is not a not-found, is returned by its step as that very error value; and
  \<open>sync_v400\<close> returns to its caller exactly the error of the first step that returns one.
  A failing get of the OAuth client, whatever its reason, makes \<open>SyncOAuthClient\<close> return
  the fixed error "oauth client for console does not exist."; an apply failure while a
  missing secret or deployment is created is reported inside the text of that step's
  "not found, creating new" error. (A failing get of the secret that is not a
  not-found is left out.)
\<close>

theorem backend_errors_as_returned:
  "(routeGetOrCreate co (DefaultRoute pk cfg) (backend s) = ((rt, rtIsNew, Some e), w) \<longrightarrow>
      SyncRoute co pk cfg s = (Returns (None, False, Some e), after RouteGetOrCreate s w))
   \<and>
   (applyService co (DefaultService pk cfg) (backend s) = ((svc, svcChanged, Some e), w) \<longrightarrow>
      SyncService co pk cfg s = (Returns (None, False, Some e), after ApplyService s w))
   \<and>
   (applyConfigMap co (DefaultConfigMap pk cfg rt) (backend s) = ((cm, cmChanged, Some e), w) \<longrightarrow>
      SyncConfigMap co pk cfg rt s = (Returns (None, False, Some e), after ApplyConfigMap s w))
   \<and>
   (oauthClientsGet co (oauthStubName pk) (backend s) = ((oa, None), w) \<longrightarrow>
    applyOAuth co (RegisterConsoleToOAuthClient pk oa rt (secretString secret)) w =
      ((oa', oauthChanged, Some e), w') \<longrightarrow>
      SyncOAuthClient co pk cfg (Some secret) rt s =
        (Returns (None, False, Some e), after ApplyOAuth (after OAuthClientsGet s w) w'))
   \<and>
   (deploymentsGet co (TargetNamespace pk) (deploymentStubName pk) (backend s) =
      ((dep, Some e), w) \<longrightarrow>
    \<not> IsNotFound (Some e) \<longrightarrow>
      SyncDeployment co pk cfg cm sec s =
        (Returns (None, False, Some e), after DeploymentsGet s w))
   \<and>
   (deploymentsGet co (TargetNamespace pk) (deploymentStubName pk) (backend s) =
      ((dep, None), w) \<longrightarrow>
    ResourceVersionsChanged pk dep cm sec \<longrightarrow>
    applyDeployment co (UpdateResourceVersions pk dep cm sec)
      (ExpectedDeploymentGeneration pk (DefaultDeployment pk cfg cm sec)
         \<lparr>VersionAvailability_Version = Version (Console_Spec cfg)\<rparr>)
      True w = ((dep', depChanged, Some e), w') \<longrightarrow>
      SyncDeployment co pk cfg cm sec s =
        (Returns (None, False, Some e), after ApplyDeployment (after DeploymentsGet s w) w'))
   \<and>
   (oauthClientsGet co (oauthStubName pk) (backend s) = ((oa, Some e), w) \<longrightarrow>
      SyncOAuthClient co pk cfg sec rt s =
        (Returns (None, False, Some (errors_New ''oauth client for console does not exist.'')),
         after OAuthClientsGet s w))
   \<and>
   (secretsGet co (TargetNamespace pk) (secretStubName pk) (backend s) = ((sec, err), w) \<longrightarrow>
    IsNotFound err \<longrightarrow>
    Random256BitsString pk w = (random, w') \<longrightarrow>
    applySecret co (DefaultSecret pk cfg random) w' = ((sec', secChanged, secErr), w'') \<longrightarrow>
      SyncSecret co pk cfg s =
        (Returns (None, secChanged,
           Some (fmt_Errorf ''secret not found, creating new secret, create error = '' secErr)),
         after ApplySecret (after Random256Bits (after SecretsGet s w) w') w''))
   \<and>
   (deploymentsGet co (TargetNamespace pk) (deploymentStubName pk) (backend s) =
      ((dep, err), w) \<longrightarrow>
    IsNotFound err \<longrightarrow>
    applyDeployment co (DefaultDeployment pk cfg cm sec)
      (ExpectedDeploymentGeneration pk (DefaultDeployment pk cfg cm sec)
         \<lparr>VersionAvailability_Version = Version (Console_Spec cfg)\<rparr>)
      True w = ((dep', depChanged, createdErr), w') \<longrightarrow>
      SyncDeployment co pk cfg cm sec s =
        (Returns (None, depChanged,
           Some (fmt_Errorf
             ''deployment not found, creating new deployment, create error = '' createdErr)),
         after ApplyDeployment (after DeploymentsGet s w) w'))
   \<and>
   (SyncRoute co pk cfg s = (Returns (rt, rtChanged, Some e), s_rt) \<longrightarrow>
      sync_v400 co pk cfg s = (Returns (cfg, False, Some e), s_rt))
   \<and>
   (SyncRoute co pk cfg s = (Returns (rt, rtChanged, None), s_rt) \<longrightarrow>
    SyncService co pk cfg s_rt = (Returns (svc, svcChanged, Some e), s_svc) \<longrightarrow>
      sync_v400 co pk cfg s = (Returns (cfg, rtChanged, Some e), s_svc))
   \<and>
   (SyncRoute co pk cfg s = (Returns (rt, rtChanged, None), s_rt) \<longrightarrow>
    SyncService co pk cfg s_rt = (Returns (svc, svcChanged, None), s_svc) \<longrightarrow>
    SyncConfigMap co pk cfg rt s_svc = (Returns (cm, cmChanged, Some e), s_cm) \<longrightarrow>
      sync_v400 co pk cfg s = (Returns (cfg, rtChanged \<or> svcChanged, Some e), s_cm))
   \<and>
   (SyncRoute co pk cfg s = (Returns (rt, rtChanged, None), s_rt) \<longrightarrow>
    SyncService co pk cfg s_rt = (Returns (svc, svcChanged, None), s_svc) \<longrightarrow>
    SyncConfigMap co pk cfg rt s_svc = (Returns (cm, cmChanged, None), s_cm) \<longrightarrow>
    SyncSecret co pk cfg s_cm = (Returns (sec, secChanged, Some e), s_sec) \<longrightarrow>
      sync_v400 co pk cfg s =
        (Returns (cfg, rtChanged \<or> svcChanged \<or> cmChanged, Some e), s_sec))
   \<and>
   (SyncRoute co pk cfg s = (Returns (rt, rtChanged, None), s_rt) \<longrightarrow>
    SyncService co pk cfg s_rt = (Returns (svc, svcChanged, None), s_svc) \<longrightarrow>
    SyncConfigMap co pk cfg rt s_svc = (Returns (cm, cmChanged, None), s_cm) \<longrightarrow>
    SyncSecret co pk cfg s_cm = (Returns (sec, secChanged, None), s_sec) \<longrightarrow>
    SyncOAuthClient co pk cfg sec rt s_sec = (Returns (oa, oauthChanged, Some e), s_oa) \<longrightarrow>
      sync_v400 co pk cfg s =
        (Returns (cfg, rtChanged \<or> svcChanged \<or> cmChanged \<or> secChanged, Some e), s_oa))
   \<and>
   (SyncRoute co pk cfg s = (Returns (rt, rtChanged, None), s_rt) \<longrightarrow>
    SyncService co pk cfg s_rt = (Returns (svc, svcChanged, None), s_svc) \<longrightarrow>
    SyncConfigMap co pk cfg rt s_svc = (Returns (cm, cmChanged, None), s_cm) \<longrightarrow>
    SyncSecret co pk cfg s_cm = (Returns (sec, secChanged, None), s_sec) \<longrightarrow>
    SyncOAuthClient co pk cfg sec rt s_sec = (Returns (oa, oauthChanged, None), s_oa) \<longrightarrow>
    SyncDeployment co pk cfg cm sec s_oa = (Returns (dep, depChanged, Some e), s_dep) \<longrightarrow>
      sync_v400 co pk cfg s =
        (Returns
          (cfg, rtChanged \<or> svcChanged \<or> cmChanged \<or> secChanged \<or> oauthChanged, Some e),
         s_dep))"
proof (intro conjI impI)
  show "SyncRoute co pk cfg s = (Returns (None, False, Some e), after RouteGetOrCreate s w)"
    if "routeGetOrCreate co (DefaultRoute pk cfg) (backend s) = ((rt, rtIsNew, Some e), w)"
    using that by (simp add: SyncRoute_def invoke_def after_def)
  show "SyncService co pk cfg s = (Returns (None, False, Some e), after ApplyService s w)"
    if "applyService co (DefaultService pk cfg) (backend s) = ((svc, svcChanged, Some e), w)"
    using that by (simp add: SyncService_def invoke_def after_def)
  show "SyncConfigMap co pk cfg rt s = (Returns (None, False, Some e), after ApplyConfigMap s w)"
    if "applyConfigMap co (DefaultConfigMap pk cfg rt) (backend s) = ((cm, cmChanged, Some e), w)"
    using that by (simp add: SyncConfigMap_def invoke_def after_def)
  show "SyncOAuthClient co pk cfg (Some secret) rt s =
        (Returns (None, False, Some e), after ApplyOAuth (after OAuthClientsGet s w) w')"
    if "oauthClientsGet co (oauthStubName pk) (backend s) = ((oa, None), w)"
      and "applyOAuth co (RegisterConsoleToOAuthClient pk oa rt (secretString secret)) w =
        ((oa', oauthChanged, Some e), w')"
    using that
    by (simp add: SyncOAuthClient_def invoke_def after_def secretsub_GetSecretString_def)
  show "SyncDeployment co pk cfg cm sec s =
        (Returns (None, False, Some e), after DeploymentsGet s w)"
    if "deploymentsGet co (TargetNamespace pk) (deploymentStubName pk) (backend s) =
        ((dep, Some e), w)"
      and "\<not> IsNotFound (Some e)"
    using that by (simp add: SyncDeployment_def invoke_def after_def)
  show "SyncDeployment co pk cfg cm sec s =
        (Returns (None, False, Some e), after ApplyDeployment (after DeploymentsGet s w) w')"
    if "deploymentsGet co (TargetNamespace pk) (deploymentStubName pk) (backend s) =
        ((dep, None), w)"
      and "ResourceVersionsChanged pk dep cm sec"
      and "applyDeployment co (UpdateResourceVersions pk dep cm sec)
        (ExpectedDeploymentGeneration pk (DefaultDeployment pk cfg cm sec)
           \<lparr>VersionAvailability_Version = Version (Console_Spec cfg)\<rparr>)
        True w = ((dep', depChanged, Some e), w')"
    using that by (simp add: SyncDeployment_def invoke_def after_def IsNotFound_def)
  show "SyncOAuthClient co pk cfg sec rt s =
        (Returns (None, False, Some (errors_New ''oauth client for console does not exist.'')),
         after OAuthClientsGet s w)"
    if "oauthClientsGet co (oauthStubName pk) (backend s) = ((oa, Some e), w)"
    using that by (simp add: SyncOAuthClient_def invoke_def after_def)
  show "SyncSecret co pk cfg s =
        (Returns (None, secChanged,
           Some (fmt_Errorf ''secret not found, creating new secret, create error = '' secErr)),
         after ApplySecret (after Random256Bits (after SecretsGet s w) w') w'')"
    if "secretsGet co (TargetNamespace pk) (secretStubName pk) (backend s) = ((sec, err), w)"
      and "IsNotFound err"
      and "Random256BitsString pk w = (random, w')"
      and "applySecret co (DefaultSecret pk cfg random) w' = ((sec', secChanged, secErr), w'')"
    using that by (simp add: SyncSecret_def invoke_def after_def)
  show "SyncDeployment co pk cfg cm sec s =
        (Returns (None, depChanged,
           Some (fmt_Errorf
             ''deployment not found, creating new deployment, create error = '' createdErr)),
         after ApplyDeployment (after DeploymentsGet s w) w')"
    if "deploymentsGet co (TargetNamespace pk) (deploymentStubName pk) (backend s) =
        ((dep, err), w)"
      and "IsNotFound err"
      and "applyDeployment co (DefaultDeployment pk cfg cm sec)
        (ExpectedDeploymentGeneration pk (DefaultDeployment pk cfg cm sec)
           \<lparr>VersionAvailability_Version = Version (Console_Spec cfg)\<rparr>)
        True w = ((dep', depChanged, createdErr), w')"
    using that by (simp add: SyncDeployment_def invoke_def after_def)
qed (simp_all add: sync_v400_def)

theorem backend_errors_as_returned_witness:
  "applyService service_timeout_operator (DefaultService example_packages example_console) 1 =
     ((None, False, Some timeout_error), 2)
   \<and> SyncService service_timeout_operator example_packages example_console
       \<lparr>calls = [RouteGetOrCreate], backend = 1\<rparr> =
     (Returns (None, False, Some timeout_error),
      \<lparr>calls = [RouteGetOrCreate, ApplyService], backend = 2\<rparr>)
   \<and> sync_v400 service_timeout_operator example_packages example_console example_world =
     (Returns (example_console, False, Some timeout_error),
      \<lparr>calls = [RouteGetOrCreate, ApplyService], backend = 2\<rparr>)
   \<and> oauthClientsGet oauth_timeout_operator (oauthStubName example_packages) 4 =
     ((None, Some timeout_error), 5)
   \<and> SyncOAuthClient oauth_timeout_operator example_packages example_console
       (Some example_secret) (Some example_route)
       \<lparr>calls = [RouteGetOrCreate, ApplyService, ApplyConfigMap, SecretsGet], backend = 4\<rparr> =
     (Returns (None, False, Some (errorString ''oauth client for console does not exist.'')),
      \<lparr>calls = [RouteGetOrCreate, ApplyService, ApplyConfigMap, SecretsGet, OAuthClientsGet],
       backend = 5\<rparr>)"
proof -
  let ?s = "\<lparr>calls = [RouteGetOrCreate], backend = 1\<rparr> :: nat world"
  let ?t = "\<lparr>calls = [RouteGetOrCreate, ApplyService, ApplyConfigMap, SecretsGet],
             backend = 4\<rparr> :: nat world"
  have app: "applyService service_timeout_operator
      (DefaultService example_packages example_console) (backend ?s) =
      ((None, False, Some timeout_error), 2)"
    by (simp add: example_defs)
  note step = backend_errors_as_returned [THEN conjunct2, THEN conjunct1, rule_format, OF app]
  have rt: "SyncRoute service_timeout_operator example_packages example_console example_world =
      (Returns (Some example_route, False, None), ?s)"
    by (simp add: step_defs example_defs)
  have svc: "SyncService service_timeout_operator example_packages example_console ?s =
      (Returns (None, False, Some timeout_error), after ApplyService ?s 2)"
    by (rule step)
  note pass =
    backend_errors_as_returned
      [THEN conjunct2, THEN conjunct2, THEN conjunct2, THEN conjunct2, THEN conjunct2,
       THEN conjunct2, THEN conjunct2, THEN conjunct2, THEN conjunct2, THEN conjunct2,
       THEN conjunct1, rule_format, OF rt svc]
  have get: "oauthClientsGet oauth_timeout_operator (oauthStubName example_packages)
      (backend ?t) = ((None, Some timeout_error), 5)"
    by (simp add: example_defs)
  note oauth =
    backend_errors_as_returned
      [THEN conjunct2, THEN conjunct2, THEN conjunct2, THEN conjunct2, THEN conjunct2,
       THEN conjunct2, THEN conjunct1, rule_format, OF get,
       where cfg = example_console and sec = "Some example_secret"
         and rt = "Some example_route"]
  show ?thesis
    using app svc pass get oauth by (simp add: after_def errors_New_def)
qed

text \<open>
  C5. When the backend hands back a route whose host is empty, \<open>SyncRoute\<close> returns a
  nil route and a non-nil error (the backend's own, or "Waiting on Route.Spec.Host"),
  and the pass ends there: the only call of the whole pass is the route's.
\<close>

theorem SyncRoute_hostless_route_stops_pass:
  "routeGetOrCreate co (DefaultRoute pk cfg) (backend s) = ((Some r, rtIsNew, rtErr), w) \<Longrightarrow>
   Host (Route_Spec r) = '''' \<Longrightarrow>
   (let e = (case rtErr of None \<Rightarrow> errors_New ''Waiting on Route.Spec.Host'' | Some x \<Rightarrow> x)
    in SyncRoute co pk cfg s = (Returns (None, False, Some e), after RouteGetOrCreate s w) \<and>
       sync_v400 co pk cfg s = (Returns (cfg, False, Some e), after RouteGetOrCreate s w)) \<and>
   calls_since s (snd (sync_v400 co pk cfg s)) = [RouteGetOrCreate]"
proof -
  assume get: "routeGetOrCreate co (DefaultRoute pk cfg) (backend s) = ((Some r, rtIsNew, rtErr), w)"
    and host: "Host (Route_Spec r) = ''''"
  define e where "e = (case rtErr of None \<Rightarrow> errors_New ''Waiting on Route.Spec.Host'' | Some x \<Rightarrow> x)"
  have step: "SyncRoute co pk cfg s = (Returns (None, False, Some e), after RouteGetOrCreate s w)"
    using get host by (cases rtErr) (simp_all add: SyncRoute_def invoke_def after_def e_def)
  have pass: "sync_v400 co pk cfg s = (Returns (cfg, False, Some e), after RouteGetOrCreate s w)"
    using step by (rule sync_v400_route_err)
  have "calls_since s (snd (sync_v400 co pk cfg s)) = [RouteGetOrCreate]"
    by (simp add: pass after_def calls_since_def)
  then show ?thesis
    using step pass by (simp add: e_def)
qed

theorem SyncRoute_hostless_route_stops_pass_witness:
  "routeGetOrCreate route_pending_operator (DefaultRoute example_packages example_console)
     (backend example_world) =
     ((Some \<lparr>Route_Spec = \<lparr>Host = ''''\<rparr>\<rparr>, True, None), 1)
   \<and> SyncRoute route_pending_operator example_packages example_console example_world =
     (Returns (None, False, Some (errorString ''Waiting on Route.Spec.Host'')),
      \<lparr>calls = [RouteGetOrCreate], backend = 1\<rparr>)
   \<and> sync_v400 route_pending_operator example_packages example_console example_world =
     (Returns (example_console, False, Some (errorString ''Waiting on Route.Spec.Host'')),
      \<lparr>calls = [RouteGetOrCreate], backend = 1\<rparr>)
   \<and> calls_since example_world
       (snd (sync_v400 route_pending_operator example_packages example_console example_world)) =
     [RouteGetOrCreate]"
proof -
  have get: "routeGetOrCreate route_pending_operator
      (DefaultRoute example_packages example_console) (backend example_world) =
      ((Some \<lparr>Route_Spec = \<lparr>Host = ''''\<rparr>\<rparr>, True, None), 1)"
    by (simp add: example_defs)
  have host: "Host (Route_Spec \<lparr>Route_Spec = \<lparr>Host = ''''\<rparr>\<rparr>) = ''''"
    by simp
  show ?thesis
    using get SyncRoute_hostless_route_stops_pass [OF get host]
    by (simp add: after_def calls_since_def example_world_def errors_New_def Let_def)
qed

text \<open>
  C6. The claim is that \<open>setStatus\<close> tolerates missing resources. With a nil route it
  panics: its first statement reads \<open>rt.Spec.Host\<close> through the pointer.
\<close>

theorem setStatus_nil_route_panics:
  "setStatus status svc None cm dep oa sec = (Panic, status)"
  by (simp add: setStatus_def setStatus_body_def)

text \<open>
  C7. When all six steps return without error, \<open>sync_v400\<close> returns a nil error and
  the disjunction of the six steps' changed flags.
\<close>

theorem sync_v400_complete:
  "SyncRoute co pk cfg s = (Returns (rt, rtChanged, None), s_rt) \<Longrightarrow>
   SyncService co pk cfg s_rt = (Returns (svc, svcChanged, None), s_svc) \<Longrightarrow>
   SyncConfigMap co pk cfg rt s_svc = (Returns (cm, cmChanged, None), s_cm) \<Longrightarrow>
   SyncSecret co pk cfg s_cm = (Returns (sec, secChanged, None), s_sec) \<Longrightarrow>
   SyncOAuthClient co pk cfg sec rt s_sec = (Returns (oa, oauthChanged, None), s_oa) \<Longrightarrow>
   SyncDeployment co pk cfg cm sec s_oa = (Returns (dep, depChanged, None), s_dep) \<Longrightarrow>
   sync_v400 co pk cfg s =
     (Returns
       (cfg, rtChanged \<or> svcChanged \<or> cmChanged \<or> secChanged \<or> oauthChanged \<or> depChanged,
        None),
      s_dep)"
  by (simp add: sync_v400_def)

theorem sync_v400_complete_witness:
  "sync_v400 oauth_drift_operator example_packages example_console example_world =
     (Returns (example_console, False \<or> False \<or> False \<or> False \<or> True \<or> False, None),
      \<lparr>calls = [RouteGetOrCreate, ApplyService, ApplyConfigMap, SecretsGet, OAuthClientsGet,
                ApplyOAuth, DeploymentsGet],
       backend = 7\<rparr>)"
proof -
  have rt: "SyncRoute oauth_drift_operator example_packages example_console example_world =
      (Returns (Some example_route, False, None), \<lparr>calls = [RouteGetOrCreate], backend = 1\<rparr>)"
    by (simp add: step_defs example_defs)
  have svc: "SyncService oauth_drift_operator example_packages example_console
        \<lparr>calls = [RouteGetOrCreate], backend = 1\<rparr> =
      (Returns (Some ''console'', False, None),
       \<lparr>calls = [RouteGetOrCreate, ApplyService], backend = 2\<rparr>)"
    by (simp add: step_defs example_defs)
  have cm: "SyncConfigMap oauth_drift_operator example_packages example_console
        (Some example_route) \<lparr>calls = [RouteGetOrCreate, ApplyService], backend = 2\<rparr> =
      (Returns (Some ''console-config'', False, None),
       \<lparr>calls = [RouteGetOrCreate, ApplyService, ApplyConfigMap], backend = 3\<rparr>)"
    by (simp add: step_defs example_defs)
  have sec: "SyncSecret oauth_drift_operator example_packages example_console
        \<lparr>calls = [RouteGetOrCreate, ApplyService, ApplyConfigMap], backend = 3\<rparr> =
      (Returns (Some example_secret, False, None),
       \<lparr>calls = [RouteGetOrCreate, ApplyService, ApplyConfigMap, SecretsGet], backend = 4\<rparr>)"
    by (simp add: step_defs example_defs)
  have oa: "SyncOAuthClient oauth_drift_operator example_packages example_console
        (Some example_secret) (Some example_route)
        \<lparr>calls = [RouteGetOrCreate, ApplyService, ApplyConfigMap, SecretsGet], backend = 4\<rparr> =
      (Returns (Some \<lparr>OAuthClient_Secret = ''s3cr3t'', RedirectURIs = []\<rparr>, True, None),
       \<lparr>calls = [RouteGetOrCreate, ApplyService, ApplyConfigMap, SecretsGet, OAuthClientsGet,
                 ApplyOAuth],
        backend = 6\<rparr>)"
    by (simp add: step_defs example_defs)
  have dep: "SyncDeployment oauth_drift_operator example_packages example_console
        (Some ''console-config'') (Some example_secret)
        \<lparr>calls = [RouteGetOrCreate, ApplyService, ApplyConfigMap, SecretsGet, OAuthClientsGet,
                  ApplyOAuth],
         backend = 6\<rparr> =
      (Returns (Some ''console'', False, None),
       \<lparr>calls = [RouteGetOrCreate, ApplyService, ApplyConfigMap, SecretsGet, OAuthClientsGet,
                 ApplyOAuth, DeploymentsGet],
        backend = 7\<rparr>)"
    by (simp add: step_defs example_defs)
  show ?thesis
    by (rule sync_v400_complete [OF rt svc cm sec oa dep])
qed

text \<open>
  C8, as stated, fails. The claim is that the consistency check is total on its two
  inputs and cannot fail. Its inputs are pointers, and it hands them to the two
  \<open>GetSecretString\<close> helpers without a nil test: with a nil secret, or a nil client, the
  read through the pointer panics.
\<close>

theorem secretAndOauthMatch_nil_panics:
  "secretAndOauthMatch None (Some \<lparr>OAuthClient_Secret = ''s3cr3t'', RedirectURIs = []\<rparr>) = Panic
   \<and> secretAndOauthMatch (Some example_secret) None = Panic"
  by (simp add: secretAndOauthMatch_def secretsub_GetSecretString_def
      oauthsub_GetSecretString_def)

text \<open>
  C8, amended. On a secret and an OAuth client that are both present (non-nil) the
  consistency check returns, and its result is true exactly when the secret's string
  equals the client's secret; on a nil secret it panics whatever the client is, and on a
  nil client it panics whatever the secret is. It takes no world and returns none, so it
  has no effect on any state.
\<close>

theorem secretAndOauthMatch_iff:
  "secretAndOauthMatch (Some secret) (Some client) =
     Returns (secretString secret = OAuthClient_Secret client)
   \<and> secretAndOauthMatch None oa = Panic
   \<and> secretAndOauthMatch (Some secret) None = Panic"
  by (simp add: secretAndOauthMatch_def secretsub_GetSecretString_def
      oauthsub_GetSecretString_def)

text \<open>
  C9. Whenever \<open>sync_v400\<close> returns (on an early error, on a just-created stop or after
  all six steps), the config in its result is the config it was given, every field
  included.
\<close>

theorem sync_v400_returns_its_config:
  "sync_v400 co pk cfg s = (Returns (c, changed, err), s') \<Longrightarrow> c = cfg"
  by (auto simp: sync_v400_def Let_def split: prod.splits outcome.splits if_splits)

theorem sync_v400_returns_its_config_witness:
  "sync_v400 example_operator example_packages example_console example_world =
     (Returns (example_console, False, None),
      \<lparr>calls = [RouteGetOrCreate, ApplyService, ApplyConfigMap, SecretsGet, OAuthClientsGet,
                ApplyOAuth, DeploymentsGet],
       backend = 7\<rparr>)
   \<and> sync_v400 secret_missing_operator example_packages example_console example_world =
     (Returns (example_console, False,
        Some (errorString ''secret not found, creating new secret, create error = <nil>'')),
      \<lparr>calls = [RouteGetOrCreate, ApplyService, ApplyConfigMap, SecretsGet, Random256Bits,
                ApplySecret],
       backend = 6\<rparr>)
   \<and> sync_v400 route_pending_operator example_packages example_console example_world =
     (Returns (example_console, False, Some (errorString ''Waiting on Route.Spec.Host'')),
      \<lparr>calls = [RouteGetOrCreate], backend = 1\<rparr>)"
proof -
  have full: "sync_v400 example_operator example_packages example_console example_world =
     (Returns (example_console, False, None),
      \<lparr>calls = [RouteGetOrCreate, ApplyService, ApplyConfigMap, SecretsGet, OAuthClientsGet,
                ApplyOAuth, DeploymentsGet],
       backend = 7\<rparr>)"
    by (simp add: sync_v400_def step_defs example_defs)
  have created: "sync_v400 secret_missing_operator example_packages example_console
      example_world =
     (Returns (example_console, False,
        Some (errorString ''secret not found, creating new secret, create error = <nil>'')),
      \<lparr>calls = [RouteGetOrCreate, ApplyService, ApplyConfigMap, SecretsGet, Random256Bits,
                ApplySecret],
       backend = 6\<rparr>)"
    by (simp add: sync_v400_def step_defs example_defs)
  have early: "sync_v400 route_pending_operator example_packages example_console
      example_world =
     (Returns (example_console, False, Some (errorString ''Waiting on Route.Spec.Host'')),
      \<lparr>calls = [RouteGetOrCreate], backend = 1\<rparr>)"
    by (simp add: sync_v400_def step_defs example_defs)
  show ?thesis
    using full created early
      sync_v400_returns_its_config [OF full]
      sync_v400_returns_its_config [OF created]
      sync_v400_returns_its_config [OF early]
    by simp
qed

text \<open>
  C10. A call of \<open>setStatus\<close> leaves the caller's status struct as it was, for all
  arguments, although the body, when it returns, has set both fields of its own copy.
\<close>

theorem setStatus_leaves_caller_status:
  "snd (setStatus status svc rt cm dep oa sec) = status \<and>
   (case setStatus_body status svc rt cm dep oa sec of
      Panic \<Rightarrow> rt = None \<or> sec = None \<or> oa = None
    | Returns cs \<Rightarrow>
        DefaultHostName cs = (case rt of None \<Rightarrow> '''' | Some r \<Rightarrow> Host (Route_Spec r)) \<and>
        OAuthSecret cs \<in> {''valid'', ''mismatch''})"
  by (auto simp: setStatus_def setStatus_body_def secretAndOauthMatch_def
      secretsub_GetSecretString_def oauthsub_GetSecretString_def Let_def
      split: option.splits outcome.splits)

end
